theory Spec2Isabelle
  imports Main "HOL-Library.Char_ord" "HOL-Library.List_Lexorder" "HOL-Library.Multiset"
begin

section \<open>Python values and built-ins used by the tool\<close>

text \<open>
  The values the tool handles are the ones \<open>response.json()\<close> produces: \<open>None\<close>,
  booleans, integers, strings, lists and dictionaries with string keys. A dictionary is
  the list of its items in insertion order; its keys are distinct (\<open>wf_json\<close> below).
  \<open>JOther\<close> stands for any Python object outside JSON (a set, bytes, ...): the type
  \<open>Dict[str, Any]\<close> of \<open>issue_data\<close> admits it, and the encoder has no rule for it.
  Floating-point numbers are outside this model. A character of a \<open>string\<close> is one
  code point.
\<close>

datatype json =
    JNull
  | JBool bool
  | JInt int
  | JStr string
  | JArr "json list"
  | JObj "(string \<times> json) list"
  | JOther

text \<open>\<open>str(n)\<close> for an integer: decimal digits, a leading minus sign when negative.\<close>

definition digit_char :: "nat \<Rightarrow> char" where
  "digit_char d = char_of (48 + d)"

fun str_nat :: "nat \<Rightarrow> string" where
  "str_nat n = (if n < 10 then [digit_char n] else str_nat (n div 10) @ [digit_char (n mod 10)])"

declare str_nat.simps [simp del]

definition str_int :: "int \<Rightarrow> string" where
  "str_int i = (if i < 0 then CHR ''-'' # str_nat (nat (- i)) else str_nat (nat i))"

text \<open>\<open>s.rstrip(c)\<close> for a one-character argument: every trailing \<open>c\<close> is removed.\<close>

definition rstrip :: "char \<Rightarrow> string \<Rightarrow> string" where
  "rstrip c s = rev (dropWhile (\<lambda>x. x = c) (rev s))"

text \<open>
  \<open>bool(v)\<close>, as \<open>if attachment_id:\<close> tests it: \<open>None\<close>, \<open>False\<close>, zero and the empty
  string, list and dictionary are false.
\<close>

fun truthy :: "json \<Rightarrow> bool" where
  "truthy JNull = False"
| "truthy (JBool b) = b"
| "truthy (JInt i) = (i \<noteq> 0)"
| "truthy (JStr s) = (s \<noteq> [])"
| "truthy (JArr xs) = (xs \<noteq> [])"
| "truthy (JObj kvs) = (kvs \<noteq> [])"
| "truthy JOther = True"

text \<open>
  \<open>str(v)\<close>, as an f-string formats a value. For a list or a dictionary Python prints
  its \<open>repr\<close>; only the scalar cases are spelled out, a container is shown by its
  brackets.
\<close>

fun py_str :: "json \<Rightarrow> string" where
  "py_str JNull = ''None''"
| "py_str (JBool b) = (if b then ''True'' else ''False'')"
| "py_str (JInt i) = str_int i"
| "py_str (JStr s) = s"
| "py_str (JArr xs) = ''[...]''"
| "py_str (JObj kvs) = ''{...}''"
| "py_str JOther = ''<object>''"

subsection \<open>Exceptions and the container protocols\<close>

text \<open>
  An exception is a value; a function that may raise returns \<open>py_error + 'a\<close>, with
  \<open>Inl\<close> the exception raised.
\<close>

datatype py_error =
    TypeError
  | KeyError
  | AttributeError
  | ValueError
  | OSError
  | RedmineAPIError
  | ConfigError

definition startswith :: "string \<Rightarrow> string \<Rightarrow> bool" where
  "startswith s p = (take (length p) s = p)"

fun is_substring :: "string \<Rightarrow> string \<Rightarrow> bool" where
  "is_substring p [] = (p = [])"
| "is_substring p (c # cs) = (startswith (c # cs) p \<or> is_substring p cs)"

text \<open>
  \<open>key in v\<close> for a string \<open>key\<close>: membership among the keys of a dictionary, among the
  elements of a list, as a substring of a string; any other value is not iterable and
  the test raises \<open>TypeError\<close>.
\<close>

fun py_contains :: "string \<Rightarrow> json \<Rightarrow> py_error + bool" where
  "py_contains key (JObj kvs) = Inr (key \<in> set (map fst kvs))"
| "py_contains key (JArr xs) = Inr (JStr key \<in> set xs)"
| "py_contains key (JStr s) = Inr (is_substring key s)"
| "py_contains key JNull = Inl TypeError"
| "py_contains key (JBool b) = Inl TypeError"
| "py_contains key (JInt i) = Inl TypeError"
| "py_contains key JOther = Inl TypeError"

text \<open>
  \<open>v[key]\<close> for a string \<open>key\<close>: the value stored in a dictionary, \<open>KeyError\<close> when the
  key is missing; \<open>TypeError\<close> on every other value (a list or a string takes integer
  indices, the rest are not subscriptable).
\<close>

fun py_getitem :: "json \<Rightarrow> string \<Rightarrow> py_error + json" where
  "py_getitem (JObj kvs) key = (case map_of kvs key of None \<Rightarrow> Inl KeyError | Some v \<Rightarrow> Inr v)"
| "py_getitem (JArr xs) key = Inl TypeError"
| "py_getitem (JStr s) key = Inl TypeError"
| "py_getitem JNull key = Inl TypeError"
| "py_getitem (JBool b) key = Inl TypeError"
| "py_getitem (JInt i) key = Inl TypeError"
| "py_getitem JOther key = Inl TypeError"

text \<open>
  The elements \<open>for x in v\<close> and \<open>list.extend(v)\<close> run over: the elements of a list, the
  keys of a dictionary, the characters of a string; \<open>TypeError\<close> otherwise.
\<close>

fun py_iter :: "json \<Rightarrow> py_error + json list" where
  "py_iter (JArr xs) = Inr xs"
| "py_iter (JObj kvs) = Inr (map (\<lambda>kv. JStr (fst kv)) kvs)"
| "py_iter (JStr s) = Inr (map (\<lambda>c. JStr [c]) s)"
| "py_iter JNull = Inl TypeError"
| "py_iter (JBool b) = Inl TypeError"
| "py_iter (JInt i) = Inl TypeError"
| "py_iter JOther = Inl TypeError"

text \<open>
  \<open>v.get(key)\<close> and \<open>v.get(key, default)\<close>: only a dictionary has the method;
  \<open>AttributeError\<close> otherwise.
\<close>

fun py_get :: "json \<Rightarrow> string \<Rightarrow> json \<Rightarrow> py_error + json" where
  "py_get (JObj kvs) key dflt = Inr (case map_of kvs key of None \<Rightarrow> dflt | Some v \<Rightarrow> v)"
| "py_get (JArr xs) key dflt = Inl AttributeError"
| "py_get (JStr s) key dflt = Inl AttributeError"
| "py_get JNull key dflt = Inl AttributeError"
| "py_get (JBool b) key dflt = Inl AttributeError"
| "py_get (JInt i) key dflt = Inl AttributeError"
| "py_get JOther key dflt = Inl AttributeError"

section \<open>redmine_client.py: the client and its request URLs\<close>

record redmine_client =
  base_url :: string
  api_key :: string

text \<open>\<open>RedmineClient.__init__\<close>: the base URL loses its trailing slashes.\<close>

definition RedmineClient :: "string \<Rightarrow> string \<Rightarrow> redmine_client" where
  "RedmineClient url key = \<lparr> base_url = rstrip CHR ''/'' url, api_key = key \<rparr>"

text \<open>The URL of \<open>get_issue\<close>: \<open>f"{self.base_url}/issues/{issue_id}.json"\<close>.\<close>

definition issue_url :: "redmine_client \<Rightarrow> int \<Rightarrow> string" where
  "issue_url c issue_id = base_url c @ ''/issues/'' @ str_int issue_id @ ''.json''"


text \<open>
  The URL of \<open>download_attachment\<close>: \<open>f"{self.base_url}/attachments/{attachment_id}"\<close>.
  The identifier is whatever value the descriptor carries under \<open>id\<close>.
\<close>

definition attachment_url :: "redmine_client \<Rightarrow> json \<Rightarrow> string" where
  "attachment_url c attachment_id = base_url c @ ''/attachments/'' @ py_str attachment_id"

subsection \<open>get_attachments_from_issue\<close>

text \<open>
  The guard \<open>'issue' in issue_data and key in issue_data['issue']\<close>, evaluated left to
  right with the short cut of \<open>and\<close>.
\<close>

definition issue_has :: "json \<Rightarrow> string \<Rightarrow> py_error + bool" where
  "issue_has issue_data key =
     (case py_contains ''issue'' issue_data of
        Inl e \<Rightarrow> Inl e
      | Inr False \<Rightarrow> Inr False
      | Inr True \<Rightarrow>
          (case py_getitem issue_data ''issue'' of
             Inl e \<Rightarrow> Inl e
           | Inr issue \<Rightarrow> py_contains key issue))"

text \<open>\<open>issue_data['issue'][key]\<close>.\<close>

definition issue_field :: "json \<Rightarrow> string \<Rightarrow> py_error + json" where
  "issue_field issue_data key =
     (case py_getitem issue_data ''issue'' of
        Inl e \<Rightarrow> Inl e
      | Inr issue \<Rightarrow> py_getitem issue key)"

text \<open>
  The loop over the journals: \<open>attachments\<close> is the list built so far; a journal with
  the key \<open>attachments\<close> extends it.
\<close>

fun journals_loop :: "json list \<Rightarrow> json list \<Rightarrow> py_error + json list" where
  "journals_loop attachments [] = Inr attachments"
| "journals_loop attachments (journal # rest) =
     (case py_contains ''attachments'' journal of
        Inl e \<Rightarrow> Inl e
      | Inr False \<Rightarrow> journals_loop attachments rest
      | Inr True \<Rightarrow>
          (case py_getitem journal ''attachments'' of
             Inl e \<Rightarrow> Inl e
           | Inr a \<Rightarrow>
               (case py_iter a of
                  Inl e \<Rightarrow> Inl e
                | Inr xs \<Rightarrow> journals_loop (attachments @ xs) rest)))"

definition get_attachments_from_issue :: "json \<Rightarrow> py_error + json list" where
  "get_attachments_from_issue issue_data =
     (case issue_has issue_data ''attachments'' of
        Inl e \<Rightarrow> Inl e
      | Inr has_top \<Rightarrow>
          (case (if has_top
                 then (case issue_field issue_data ''attachments'' of
                         Inl e \<Rightarrow> Inl e
                       | Inr a \<Rightarrow> py_iter a)
                 else Inr []) of
             Inl e \<Rightarrow> Inl e
           | Inr attachments \<Rightarrow>
               (case issue_has issue_data ''journals'' of
                  Inl e \<Rightarrow> Inl e
                | Inr False \<Rightarrow> Inr attachments
                | Inr True \<Rightarrow>
                    (case issue_field issue_data ''journals'' of
                       Inl e \<Rightarrow> Inl e
                     | Inr js \<Rightarrow>
                         (case py_iter js of
                            Inl e \<Rightarrow> Inl e
                          | Inr journals \<Rightarrow> journals_loop attachments journals)))))"

text \<open>
  The extraction as the specification words it, for a document of the expected shape:
  the issue's own attachment list, then the attachment list of each journal entry, a
  missing list counting as empty.
\<close>

definition attachment_list :: "(string \<times> json) list \<Rightarrow> json list" where
  "attachment_list kvs = (case map_of kvs ''attachments'' of Some (JArr xs) \<Rightarrow> xs | _ \<Rightarrow> [])"

fun journal_attachments :: "json \<Rightarrow> json list" where
  "journal_attachments (JObj kvs) = attachment_list kvs"
| "journal_attachments _ = []"

definition journal_list :: "(string \<times> json) list \<Rightarrow> json list" where
  "journal_list kvs = (case map_of kvs ''journals'' of Some (JArr js) \<Rightarrow> js | _ \<Rightarrow> [])"

definition extractAttachments :: "json \<Rightarrow> json list" where
  "extractAttachments doc =
     (case doc of
        JObj doc_items \<Rightarrow>
          (case map_of doc_items ''issue'' of
             Some (JObj issue) \<Rightarrow>
               attachment_list issue @ concat (map journal_attachments (journal_list issue))
           | _ \<Rightarrow> [])
      | _ \<Rightarrow> [])"

text \<open>
  The expected shape: a dictionary whose \<open>issue\<close>, when present, is a dictionary; its
  \<open>attachments\<close>, when present, a list; its \<open>journals\<close>, when present, a list of
  dictionaries whose \<open>attachments\<close>, when present, are lists.
\<close>

definition attachments_ok :: "(string \<times> json) list \<Rightarrow> bool" where
  "attachments_ok kvs =
     (case map_of kvs ''attachments'' of None \<Rightarrow> True | Some (JArr xs) \<Rightarrow> True | Some _ \<Rightarrow> False)"

fun journal_ok :: "json \<Rightarrow> bool" where
  "journal_ok (JObj kvs) = attachments_ok kvs"
| "journal_ok _ = False"

definition journals_ok :: "(string \<times> json) list \<Rightarrow> bool" where
  "journals_ok kvs =
     (case map_of kvs ''journals'' of
        None \<Rightarrow> True
      | Some (JArr js) \<Rightarrow> list_all journal_ok js
      | Some _ \<Rightarrow> False)"

definition issue_shaped :: "json \<Rightarrow> bool" where
  "issue_shaped doc =
     (case doc of
        JObj doc_items \<Rightarrow>
          (case map_of doc_items ''issue'' of
             None \<Rightarrow> True
           | Some (JObj issue) \<Rightarrow> attachments_ok issue \<and> journals_ok issue
           | Some _ \<Rightarrow> False)
      | _ \<Rightarrow> False)"

text \<open>
  A document with no attachment sub-structure at all: no \<open>issue\<close>, or an issue with
  neither \<open>attachments\<close> nor \<open>journals\<close>.
\<close>

definition no_attachment_structure :: "json \<Rightarrow> bool" where
  "no_attachment_structure doc =
     (case doc of
        JObj doc_items \<Rightarrow>
          (case map_of doc_items ''issue'' of
             None \<Rightarrow> True
           | Some (JObj issue) \<Rightarrow>
               map_of issue ''attachments'' = None \<and> map_of issue ''journals'' = None
           | Some _ \<Rightarrow> False)
      | _ \<Rightarrow> False)"

text \<open>
  A document with two attachments of its own and two journal entries, the first with one
  attachment, the second with none.
\<close>

definition example_doc :: json where
  "example_doc =
     JObj [(''issue'', JObj
       [(''id'', JInt 7),
        (''attachments'', JArr [JObj [(''id'', JInt 1), (''filename'', JStr ''a.txt'')],
                               JObj [(''id'', JInt 2), (''filename'', JStr ''b.txt'')]]),
        (''journals'', JArr [JObj [(''id'', JInt 10),
                                  (''attachments'', JArr [JObj [(''id'', JInt 3)]])],
                            JObj [(''id'', JInt 11), (''attachments'', JArr [])]])])]"

section \<open>history_manager.py\<close>



definition LF :: char where
  "LF = CHR 0x0A"







text \<open>\<open>s.rfind(c)\<close>: the index of the last \<open>c\<close>, \<open>-1\<close> when there is none.\<close>

definition rfind :: "char \<Rightarrow> string \<Rightarrow> int" where
  "rfind c s =
     (if c \<in> set s then int (length s) - 1 - int (length (takeWhile (\<lambda>x. x \<noteq> c) (rev s)))
      else - 1)"







section \<open>json.dump as save_issue_json calls it\<close>

text \<open>
  \<open>json.dump(issue_data, f, ensure_ascii=False, indent=2, sort_keys=True)\<close> writes the
  chunks of the encoder's generator to the file one after the other. With
  \<open>ensure_ascii=False\<close> a string is written as it is between double quotes, except
  for the quote, the backslash and the control characters below \<open>0x20\<close>.
\<close>

definition hex_digit :: "nat \<Rightarrow> char" where
  "hex_digit d = (if d < 10 then char_of (48 + d) else char_of (87 + d))"

definition escape_char :: "char \<Rightarrow> string" where
  "escape_char c =
     (if c = CHR 0x22 then [CHR 0x5C, CHR 0x22]
      else if c = CHR 0x5C then [CHR 0x5C, CHR 0x5C]
      else if c = CHR 0x0A then [CHR 0x5C, CHR ''n'']
      else if c = CHR 0x0D then [CHR 0x5C, CHR ''r'']
      else if c = CHR 0x09 then [CHR 0x5C, CHR ''t'']
      else if c = CHR 0x08 then [CHR 0x5C, CHR ''b'']
      else if c = CHR 0x0C then [CHR 0x5C, CHR ''f'']
      else if (of_char c :: nat) < 32
      then [CHR 0x5C, CHR ''u'', CHR ''0'', CHR ''0'',
            hex_digit (of_char c div 16), hex_digit (of_char c mod 16)]
      else [c])"

definition encode_basestring :: "string \<Rightarrow> string" where
  "encode_basestring s = CHR 0x22 # concat (map escape_char s) @ [CHR 0x22]"

text \<open>With \<open>indent=2\<close>: a newline and two spaces for each level.\<close>

definition newline_indent :: "nat \<Rightarrow> string" where
  "newline_indent level = CHR 0x0A # replicate (2 * level) CHR '' ''"

text \<open>The values the encoder has a rule for.\<close>

fun serializable :: "json \<Rightarrow> bool" where
  "serializable JOther = False"
| "serializable (JArr xs) = list_all serializable xs"
| "serializable (JObj kvs) = list_all (\<lambda>kv. serializable (snd kv)) kvs"
| "serializable _ = True"

text \<open>Sorting keeps the sizes: needed for the termination of the encoder.\<close>

lemma size_list_sort_key: "size_list f (sort_key k xs) = size_list f xs"
proof -
  have "sum_list (map f (sort_key k xs)) = sum_list (map f xs)"
    by (metis mset_map mset_sort sum_mset_sum_list)
  then show ?thesis by (simp add: size_list_conv_sum_list)
qed

lemma size_list_pairs:
  "size_list (size_prod (\<lambda>x. 0) f) kvs = size_list (\<lambda>kv. Suc (f (snd kv))) kvs"
  by (induction kvs) auto

text \<open>
  The text the generator has yielded when it finishes or raises. A list or dictionary
  opens with its bracket and the indentation of its first item; items are separated by a
  comma and the indentation; the closing bracket follows the indentation of the
  enclosing level. The items of a dictionary come in the order of \<open>sorted(dct.items())\<close>,
  which for distinct keys is the order of the keys. On a value without a rule the
  encoder raises \<open>TypeError\<close>: everything before it has been written, nothing after.
\<close>

function iterencode :: "nat \<Rightarrow> json \<Rightarrow> string"
  and iterencode_list :: "nat \<Rightarrow> json list \<Rightarrow> string"
  and iterencode_dict :: "nat \<Rightarrow> (string \<times> json) list \<Rightarrow> string"
where
  "iterencode level JNull = ''null''"
| "iterencode level (JBool b) = (if b then ''true'' else ''false'')"
| "iterencode level (JInt i) = str_int i"
| "iterencode level (JStr s) = encode_basestring s"
| "iterencode level (JArr xs) =
     (if xs = [] then ''[]''
      else ''['' @ newline_indent (Suc level) @ iterencode_list (Suc level) xs
           @ (if list_all serializable xs then newline_indent level @ '']'' else []))"
| "iterencode level (JObj kvs) =
     (if kvs = [] then ''{}''
      else ''{'' @ newline_indent (Suc level) @ iterencode_dict (Suc level) (sort_key fst kvs)
           @ (if list_all (\<lambda>kv. serializable (snd kv)) kvs
              then newline_indent level @ ''}'' else []))"
| "iterencode level JOther = []"
| "iterencode_list level [] = []"
| "iterencode_list level (x # xs) =
     iterencode level x
     @ (if serializable x \<and> xs \<noteq> []
        then '','' @ newline_indent level @ iterencode_list level xs else [])"
| "iterencode_dict level [] = []"
| "iterencode_dict level (kv # kvs) =
     encode_basestring (fst kv) @ '': '' @ iterencode level (snd kv)
     @ (if serializable (snd kv) \<and> kvs \<noteq> []
        then '','' @ newline_indent level @ iterencode_dict level kvs else [])"
  by pat_completeness auto
termination
  by (relation "measure (\<lambda>x. case x of
          Inl (l, v) \<Rightarrow> 2 * size v
        | Inr (Inl (l, xs)) \<Rightarrow> 2 * size_list size xs + 1
        | Inr (Inr (l, kvs)) \<Rightarrow> 2 * size_list (\<lambda>kv. Suc (size (snd kv))) kvs + 1)")
     (auto simp: size_list_sort_key size_list_pairs)

section \<open>file_manager.py: the output layout\<close>

text \<open>
  A path is the string \<open>str(path)\<close>. \<open>a / b\<close> on \<open>Path\<close> objects: an absolute \<open>b\<close>
  replaces \<open>a\<close>, an empty \<open>b\<close> leaves \<open>a\<close>; otherwise the two are joined by a slash.
  Paths are compared as they are written: \<open>pathlib\<close>'s removal of doubled slashes and
  of \<open>.\<close> components is not modelled.
\<close>

definition path_join :: "string \<Rightarrow> string \<Rightarrow> string" where
  "path_join a b = (if startswith b ''/'' then b else if b = [] then a else a @ ''/'' @ b)"

record file_manager =
  output_dir :: string
  issues_dir :: string
  attachments_dir :: string

definition FileManager :: "string \<Rightarrow> file_manager" where
  "FileManager out =
     \<lparr> output_dir = out,
       issues_dir = path_join out ''issues'',
       attachments_dir = path_join out ''attachments'' \<rparr>"

definition get_issue_file_path :: "file_manager \<Rightarrow> int \<Rightarrow> string" where
  "get_issue_file_path fm issue_id = path_join (issues_dir fm) (str_int issue_id @ ''.json'')"

definition get_attachment_dir_path :: "file_manager \<Rightarrow> int \<Rightarrow> string" where
  "get_attachment_dir_path fm issue_id = path_join (attachments_dir fm) (str_int issue_id)"

text \<open>
  \<open>get_attachment_file_path\<close>: the file name comes from the descriptor and may be any
  value; \<open>Path / filename\<close> raises \<open>TypeError\<close> unless it is a string.
\<close>

fun get_attachment_file_path :: "file_manager \<Rightarrow> int \<Rightarrow> json \<Rightarrow> py_error + string" where
  "get_attachment_file_path fm issue_id (JStr filename) =
     Inr (path_join (path_join (attachments_dir fm) (str_int issue_id)) filename)"
| "get_attachment_file_path fm issue_id _ = Inl TypeError"

section \<open>The world outside the program\<close>

text \<open>
  The state the program reads and changes, passed explicitly. \<open>files\<close> is the file
  system, keyed by path. \<open>requests\<close> lists the HTTP requests sent so far and \<open>writes\<close>
  counts the files opened for writing so far; \<open>log\<close> is what the logger has been given.
  Two fields record calls and are read by no function: \<open>downloads\<close> holds each call of
  \<open>download_attachment\<close> that returned, with its arguments and the value returned;
  \<open>processed\<close> holds each call of \<open>process_issue\<close> made by \<open>main\<close>, with its result.
\<close>

datatype node = File string | Dir

datatype request = Get string "(string \<times> string) list"

datatype log_event =
    LogSkip int
  | LogFetching int
  | LogNotFound int
  | LogSaved int string
  | LogAttachmentsStart int nat
  | LogAttachmentExists json
  | LogAttachmentDownloading json
  | LogAttachmentDone json
  | LogAttachmentFailed json
  | LogAttachmentInvalid json
  | LogAttachmentsFailed int nat nat
  | LogAttachmentsDone int
  | LogNoAttachments int
  | LogApiError int
  | LogSaveError int
  | LogUnexpectedError int
  | LogConnectionFailed
  | LogSummary nat nat nat
  | LogFailedIssues nat
  | LogAllDone
  | LogConfigError
  | LogMainError

record world =
  files :: "string \<Rightarrow> node option"
  requests :: "request list"
  writes :: nat
  log :: "log_event list"
  history :: "string list"
  downloads :: "(json \<times> string \<times> bool) list"
  processed :: "(int \<times> bool) list"

definition logged :: "log_event \<Rightarrow> world \<Rightarrow> world" where
  "logged e w = w\<lparr> log := log w @ [e] \<rparr>"

text \<open>
  What the world answers, which the program does not decide. \<open>http n req\<close> is the
  outcome of request \<open>req\<close> when \<open>n\<close> requests have been sent before it: a response, or
  one of the exceptions of \<open>requests\<close>. \<open>fault n path\<close> says how opening \<open>path\<close> for
  writing goes when \<open>n\<close> files have been opened before: no failure; \<open>OpenFails\<close>, an
  \<open>OSError\<close> before the file is opened (from \<open>os.makedirs\<close> or \<open>open\<close>), which leaves
  the file system as it was; \<open>FailsAfter k\<close>, an error once \<open>k\<close> characters are in the
  file (an \<open>OSError\<close> of the file, or for a download an exception of the stream).
  \<open>history_ok n\<close> says whether appending to the history file succeeds. The remaining
  fields are what \<open>load_config\<close> reads and the clock.
\<close>

record response =
  status_code :: int
  json_body :: "json option"
  content :: string

datatype http_outcome =
    Response response
  | Timeout
  | ConnectionError
  | RequestException

datatype fault = NoFault | OpenFails | FailsAfter nat

record env =
  http :: "nat \<Rightarrow> request \<Rightarrow> http_outcome"
  fault :: "nat \<Rightarrow> string \<Rightarrow> fault"
  history_ok :: "nat \<Rightarrow> bool"
  dotenv_exists :: bool
  getenv :: "string \<Rightarrow> string option"
  now :: string

text \<open>\<open>response.ok\<close>: false exactly for the statuses 400 to 599.\<close>

definition ok :: "response \<Rightarrow> bool" where
  "ok r = (\<not> (400 \<le> status_code r \<and> status_code r < 600))"

definition NUL :: char where
  "NUL = CHR 0x00"

text \<open>
  \<open>os.path.exists\<close> and \<open>Path.exists\<close>: false on a path with a null character.
  \<open>Path.is_file\<close>.
\<close>

definition path_exists :: "world \<Rightarrow> string \<Rightarrow> bool" where
  "path_exists w p = (NUL \<notin> set p \<and> files w p \<noteq> None)"

definition is_file :: "world \<Rightarrow> string \<Rightarrow> bool" where
  "is_file w p = (case files w p of Some (File c) \<Rightarrow> True | _ \<Rightarrow> False)"

text \<open>\<open>FileManager.file_exists\<close>: \<open>file_path.exists() and file_path.is_file()\<close>.\<close>

definition file_exists :: "file_manager \<Rightarrow> int \<Rightarrow> world \<Rightarrow> bool" where
  "file_exists fm issue_id w =
     (let file_path = path_join (issues_dir fm) (str_int issue_id @ ''.json'')
      in path_exists w file_path \<and> is_file w file_path)"

text \<open>
  \<open>os.path.dirname\<close>, and the directories \<open>os.makedirs(d, exist_ok=True)\<close> makes sure of:
  \<open>d\<close> and each prefix of \<open>d\<close> that ends before a slash.
\<close>

definition dirname :: "string \<Rightarrow> string" where
  "dirname p =
     (let head = take (nat (rfind CHR ''/'' p + 1)) p
      in if head \<noteq> [] \<and> head \<noteq> replicate (length head) CHR ''/''
         then rstrip CHR ''/'' head else head)"

definition makedirs_paths :: "string \<Rightarrow> string list" where
  "makedirs_paths d =
     filter (\<lambda>q. q \<noteq> [])
       (map (\<lambda>i. take i d)
          (filter (\<lambda>i. i = length d \<or> d ! i = CHR ''/'') [0..<Suc (length d)]))"

definition makedirs :: "string \<Rightarrow> (string \<Rightarrow> node option) \<Rightarrow> (string \<Rightarrow> node option)" where
  "makedirs d fs = fold (\<lambda>q f. if f q = None then f(q \<mapsto> Dir) else f) (makedirs_paths d) fs"

subsection \<open>save_issue_json\<close>

text \<open>
  \<open>open(file_path, 'w')\<close> empties the file; \<open>json.dump\<close> then writes the text chunk by
  chunk. An \<open>OSError\<close> is raised again as \<open>OSError\<close>; a \<open>TypeError\<close> or \<open>ValueError\<close>
  (a value the encoder has no rule for, a null character in the path) as \<open>ValueError\<close>.
  When the error comes after the file was opened, the file holds what was written until
  then.
\<close>

definition save_issue_json ::
  "env \<Rightarrow> file_manager \<Rightarrow> int \<Rightarrow> json \<Rightarrow> world \<Rightarrow> (py_error + string) \<times> world" where
  "save_issue_json e fm issue_id issue_data w =
     (let file_path = path_join (issues_dir fm) (str_int issue_id @ ''.json'');
          chunks = iterencode 0 issue_data;
          w1 = w\<lparr> writes := Suc (writes w) \<rparr>;
          dumped = (if serializable issue_data
             then (Inr file_path, w1\<lparr> files := (files w)(file_path \<mapsto> File chunks) \<rparr>)
             else (Inl ValueError, w1\<lparr> files := (files w)(file_path \<mapsto> File chunks) \<rparr>))
      in if NUL \<in> set file_path then (Inl ValueError, w)
         else (case fault e (writes w) file_path of
                 OpenFails \<Rightarrow> (Inl OSError, w1)
               | FailsAfter k \<Rightarrow>
                   if k < length chunks
                   then (Inl OSError,
                         w1\<lparr> files := (files w)(file_path \<mapsto> File (take k chunks)) \<rparr>)
                   else dumped
               | NoFault \<Rightarrow> dumped))"

section \<open>redmine_client.py: the requests\<close>

text \<open>
  \<open>get_issue\<close>: one request with \<open>include=journals,attachments\<close>. Status 404 gives
  \<open>None\<close>; another status that is not \<open>ok\<close>, an exception of \<open>requests\<close> and a body
  that is not JSON give \<open>RedmineAPIError\<close>; otherwise the parsed body is returned.
  Python's \<open>None\<close> is \<open>JNull\<close>.
\<close>

definition get_issue ::
  "env \<Rightarrow> redmine_client \<Rightarrow> int \<Rightarrow> world \<Rightarrow> (py_error + json) \<times> world" where
  "get_issue e c issue_id w =
     (let req = Get (issue_url c issue_id) [(''include'', ''journals,attachments'')];
          w1 = w\<lparr> requests := requests w @ [req] \<rparr>
      in case http e (length (requests w)) req of
           Timeout \<Rightarrow> (Inl RedmineAPIError, w1)
         | ConnectionError \<Rightarrow> (Inl RedmineAPIError, w1)
         | RequestException \<Rightarrow> (Inl RedmineAPIError, w1)
         | Response r \<Rightarrow>
             if status_code r = 404 then (Inr JNull, w1)
             else if \<not> ok r then (Inl RedmineAPIError, w1)
             else (case json_body r of
                     None \<Rightarrow> (Inl RedmineAPIError, w1)
                   | Some issue_data \<Rightarrow> (Inr issue_data, w1)))"


text \<open>
  \<open>download_attachment\<close>: one request, then \<open>os.makedirs\<close> for the directory of
  \<open>file_path\<close>, then the body is written to \<open>file_path\<close>. A response that is not \<open>ok\<close>,
  an exception of \<open>requests\<close> and an \<open>OSError\<close> make it return \<open>False\<close>. A null
  character in the path makes \<open>os.makedirs\<close> or \<open>open\<close> raise \<open>ValueError\<close>, which no
  handler of the method catches. \<open>returned\<close> records the call and its result.
\<close>

definition returned :: "json \<Rightarrow> string \<Rightarrow> bool \<Rightarrow> world \<Rightarrow> (py_error + bool) \<times> world" where
  "returned attachment_id file_path b w =
     (Inr b, w\<lparr> downloads := downloads w @ [(attachment_id, file_path, b)] \<rparr>)"

definition download_attachment ::
  "env \<Rightarrow> redmine_client \<Rightarrow> json \<Rightarrow> string \<Rightarrow> world \<Rightarrow> (py_error + bool) \<times> world" where
  "download_attachment e c attachment_id file_path w =
     (let req = Get (attachment_url c attachment_id) [];
          w1 = w\<lparr> requests := requests w @ [req] \<rparr>;
          w2 = w1\<lparr> writes := Suc (writes w1) \<rparr>;
          written = (\<lambda>body. w2\<lparr> files :=
             (makedirs (dirname file_path) (files w2))(file_path \<mapsto> File body) \<rparr>)
      in case http e (length (requests w)) req of
           Timeout \<Rightarrow> returned attachment_id file_path False w1
         | ConnectionError \<Rightarrow> returned attachment_id file_path False w1
         | RequestException \<Rightarrow> returned attachment_id file_path False w1
         | Response r \<Rightarrow>
             if \<not> ok r then returned attachment_id file_path False w1
             else if NUL \<in> set file_path then (Inl ValueError, w1)
             else (case fault e (writes w1) file_path of
                     OpenFails \<Rightarrow> returned attachment_id file_path False w2
                   | FailsAfter k \<Rightarrow>
                       if k < length (content r)
                       then returned attachment_id file_path False (written (take k (content r)))
                       else returned attachment_id file_path True (written (content r))
                   | NoFault \<Rightarrow> returned attachment_id file_path True (written (content r))))"

section \<open>get_redmine_issues.py\<close>

subsection \<open>process_issue\<close>

text \<open>
  The loop over the attachments, with its two counters. A descriptor whose \<open>id\<close> is
  missing or false counts as failed without any download; an existing file counts as
  successful without any download; otherwise the result of \<open>download_attachment\<close>
  decides. An exception (a descriptor that is not a dictionary, a file name that is not
  a string, an exception of \<open>download_attachment\<close>) leaves the loop.
\<close>

fun attachments_loop ::
  "env \<Rightarrow> redmine_client \<Rightarrow> file_manager \<Rightarrow> int \<Rightarrow> json list \<Rightarrow> nat \<Rightarrow> nat \<Rightarrow> world
   \<Rightarrow> (py_error + nat \<times> nat) \<times> world" where
  "attachments_loop e c fm issue_id [] download_successful download_failed w =
     (Inr (download_successful, download_failed), w)"
| "attachments_loop e c fm issue_id (attachment # rest) download_successful download_failed w =
     (case py_get attachment ''id'' JNull of
        Inl x \<Rightarrow> (Inl x, w)
      | Inr attachment_id \<Rightarrow>
          (case py_get attachment ''filename'' (JStr (''attachment_'' @ py_str attachment_id)) of
             Inl x \<Rightarrow> (Inl x, w)
           | Inr filename \<Rightarrow>
               if truthy attachment_id
               then (case get_attachment_file_path fm issue_id filename of
                       Inl x \<Rightarrow> (Inl x, w)
                     | Inr file_path \<Rightarrow>
                         if path_exists w file_path
                         then attachments_loop e c fm issue_id rest
                                (Suc download_successful) download_failed
                                (logged (LogAttachmentExists filename) w)
                         else (case download_attachment e c attachment_id file_path
                                      (logged (LogAttachmentDownloading filename) w) of
                                 (Inl x, w') \<Rightarrow> (Inl x, w')
                               | (Inr True, w') \<Rightarrow>
                                   attachments_loop e c fm issue_id rest
                                     (Suc download_successful) download_failed
                                     (logged (LogAttachmentDone filename) w')
                               | (Inr False, w') \<Rightarrow>
                                   attachments_loop e c fm issue_id rest
                                     download_successful (Suc download_failed)
                                     (logged (LogAttachmentFailed filename) w')))
               else attachments_loop e c fm issue_id rest
                      download_successful (Suc download_failed)
                      (logged (LogAttachmentInvalid attachment) w)))"

text \<open>
  The attachment part of \<open>process_issue\<close> (from \<open>if download_attachments:\<close> to the
  \<open>return True\<close> after it).
\<close>

definition attachment_phase ::
  "env \<Rightarrow> redmine_client \<Rightarrow> file_manager \<Rightarrow> int \<Rightarrow> json \<Rightarrow> world
   \<Rightarrow> (py_error + bool) \<times> world" where
  "attachment_phase e c fm issue_id issue_data w =
     (case get_attachments_from_issue issue_data of
        Inl x \<Rightarrow> (Inl x, w)
      | Inr attachments \<Rightarrow>
          if attachments \<noteq> []
          then (case attachments_loop e c fm issue_id attachments 0 0
                       (logged (LogAttachmentsStart issue_id (length attachments)) w) of
                  (Inl x, w') \<Rightarrow> (Inl x, w')
                | (Inr (download_successful, download_failed), w') \<Rightarrow>
                    if download_failed > 0
                    then (Inr True,
                          logged (LogAttachmentsFailed issue_id download_failed
                                    (length attachments)) w')
                    else (Inr True, logged (LogAttachmentsDone issue_id) w'))
          else (Inr True, logged (LogNoAttachments issue_id) w))"

text \<open>The body of the \<open>try\<close> of \<open>process_issue\<close>, after the test for an existing file.\<close>

definition process_issue_body ::
  "env \<Rightarrow> redmine_client \<Rightarrow> file_manager \<Rightarrow> int \<Rightarrow> bool \<Rightarrow> world
   \<Rightarrow> (py_error + bool) \<times> world" where
  "process_issue_body e c fm issue_id download_attachments w =
     (case get_issue e c issue_id (logged (LogFetching issue_id) w) of
        (Inl x, w1) \<Rightarrow> (Inl x, w1)
      | (Inr issue_data, w1) \<Rightarrow>
          if issue_data = JNull then (Inr False, logged (LogNotFound issue_id) w1)
          else (case save_issue_json e fm issue_id issue_data w1 of
                  (Inl x, w2) \<Rightarrow> (Inl x, w2)
                | (Inr saved_path, w2) \<Rightarrow>
                    if download_attachments
                    then attachment_phase e c fm issue_id issue_data
                           (logged (LogSaved issue_id saved_path) w2)
                    else (Inr True, logged (LogSaved issue_id saved_path) w2)))"

text \<open>
  The three handlers: each logs an error and returns \<open>False\<close>. \<open>RedmineAPIError\<close> is
  reported as an API error, \<open>OSError\<close> and \<open>ValueError\<close> as a save error, every other
  exception as unexpected.
\<close>

fun handler_event :: "int \<Rightarrow> py_error \<Rightarrow> log_event" where
  "handler_event issue_id RedmineAPIError = LogApiError issue_id"
| "handler_event issue_id OSError = LogSaveError issue_id"
| "handler_event issue_id ValueError = LogSaveError issue_id"
| "handler_event issue_id _ = LogUnexpectedError issue_id"

definition process_issue ::
  "env \<Rightarrow> redmine_client \<Rightarrow> file_manager \<Rightarrow> int \<Rightarrow> bool \<Rightarrow> bool \<Rightarrow> world \<Rightarrow> bool \<times> world" where
  "process_issue e c fm issue_id skip_existing download_attachments w =
     (if skip_existing \<and> file_exists fm issue_id w
      then (True, logged (LogSkip issue_id) w)
      else (case process_issue_body e c fm issue_id download_attachments w of
              (Inl x, w') \<Rightarrow> (False, logged (handler_event issue_id x) w')
            | (Inr b, w') \<Rightarrow> (b, w')))"

subsection \<open>config.py\<close>



record redmine_config =
  url :: string
  cfg_api_key :: string



subsection \<open>The history record of a run\<close>

text \<open>\<open>" ".join(command_args)\<close>.\<close>

fun join_spaces :: "string list \<Rightarrow> string" where
  "join_spaces [] = []"
| "join_spaces [x] = x"
| "join_spaces (x # y # ys) = x @ '' '' @ join_spaces (y # ys)"

text \<open>
  \<open>log_command_execution\<close>: one line is appended to the day's file; any exception is
  logged and swallowed.
\<close>

definition log_command_execution ::
  "env \<Rightarrow> string list \<Rightarrow> bool \<Rightarrow> string option \<Rightarrow> world \<Rightarrow> world" where
  "log_command_execution e command_args success additional_info w =
     (let log_entry = ''['' @ now e @ ''] '' @ (if success then ''SUCCESS'' else ''FAILED'')
            @ '': '' @ join_spaces command_args
            @ (case additional_info of
                 None \<Rightarrow> []
               | Some info \<Rightarrow> if info \<noteq> [] then '' | '' @ info else [])
            @ [LF]
      in if history_ok e (writes w)
         then w\<lparr> writes := Suc (writes w), history := history w @ [log_entry] \<rparr>
         else w\<lparr> writes := Suc (writes w) \<rparr>)"


subsection \<open>main\<close>



record args =
  argv :: "string list"
  arg_output_dir :: string
  issue_ids :: "int list"
  skip_existing :: bool
  no_attachments :: bool


section \<open>Example runs\<close>

text \<open>A client, an output directory, an empty world and a server that knows no issue.\<close>

definition example_client :: redmine_client where
  "example_client = RedmineClient ''http://redmine.example/'' ''0123456789abcdef''"

definition example_fm :: file_manager where
  "example_fm = FileManager ''out''"

definition empty_world :: world where
  "empty_world =
     \<lparr> files = (\<lambda>p. None), requests = [], writes = 0, log = [], history = [],
       downloads = [], processed = [] \<rparr>"

definition not_found_env :: env where
  "not_found_env =
     \<lparr> http = (\<lambda>n req. Response \<lparr> status_code = 404, json_body = None, content = [] \<rparr>),
       fault = (\<lambda>n p. NoFault),
       history_ok = (\<lambda>n. True),
       dotenv_exists = True,
       getenv = (\<lambda>name. None),
       now = ''2024-01-01 00:00:00'' \<rparr>"

text \<open>A world in which issue 5 has been saved before.\<close>

definition saved_world :: world where
  "saved_world = empty_world \<lparr> files := (\<lambda>p. if p = ''out/issues/5.json'' then Some (File ''{}'') else None) \<rparr>"

text \<open>
  An issue with four attachment descriptors: two of its own with an identifier, one of
  its own without, and one in a journal entry. The server of \<open>mixed_env\<close> delivers the
  issue and the attachments 1 and 3 and answers the request for attachment 2 with
  status 500. The three worlds are the states of a run for this issue after the fetch,
  after the save and after the loop over the attachments.
\<close>

definition mixed_doc :: json where
  "mixed_doc =
     JObj [(''issue'', JObj
       [(''id'', JInt 7),
        (''attachments'', JArr [JObj [(''id'', JInt 1), (''filename'', JStr ''a.txt'')],
                               JObj [(''id'', JInt 2), (''filename'', JStr ''b.txt'')],
                               JObj [(''filename'', JStr ''c.txt'')]]),
        (''journals'', JArr [JObj [(''id'', JInt 10),
                                  (''attachments'', JArr [JObj [(''id'', JInt 3)]])]])])]"

definition mixed_attachments :: "json list" where
  "mixed_attachments =
     [JObj [(''id'', JInt 1), (''filename'', JStr ''a.txt'')],
      JObj [(''id'', JInt 2), (''filename'', JStr ''b.txt'')],
      JObj [(''filename'', JStr ''c.txt'')],
      JObj [(''id'', JInt 3)]]"

definition mixed_env :: env where
  "mixed_env =
     \<lparr> http = (\<lambda>n req.
         if req = Get ''http://redmine.example/issues/7.json''
                    [(''include'', ''journals,attachments'')]
         then Response \<lparr> status_code = 200, json_body = Some mixed_doc, content = [] \<rparr>
         else if req = Get ''http://redmine.example/attachments/2'' []
         then Response \<lparr> status_code = 500, json_body = None, content = [] \<rparr>
         else Response \<lparr> status_code = 200, json_body = None, content = ''data'' \<rparr>),
       fault = (\<lambda>n p. NoFault),
       history_ok = (\<lambda>n. True),
       dotenv_exists = True,
       getenv = (\<lambda>name. if name = ''REDMINE_URL'' then Some ''http://redmine.example/''
                         else if name = ''REDMINE_API_KEY'' then Some ''0123456789abcdef''
                         else None),
       now = ''2024-01-01 00:00:00'' \<rparr>"

definition fetched_world :: world where
  "fetched_world =
     snd (get_issue mixed_env example_client 7 (logged (LogFetching 7) empty_world))"

definition stored_world :: world where
  "stored_world = snd (save_issue_json mixed_env example_fm 7 mixed_doc fetched_world)"

definition finished_world :: world where
  "finished_world =
     snd (attachments_loop mixed_env example_client example_fm 7 mixed_attachments 0 0
            (logged (LogAttachmentsStart 7 (length mixed_attachments))
               (logged (LogSaved 7 ''out/issues/7.json'') stored_world)))"

subsection \<open>Counting attachment failures\<close>

text \<open>
  A descriptor without a usable identifier: \<open>attachment.get('id')\<close> is \<open>None\<close> or false.
  The downloads that returned \<open>False\<close> among recorded calls.
\<close>

definition no_id :: "json \<Rightarrow> bool" where
  "no_id attachment =
     (case py_get attachment ''id'' JNull of Inl x \<Rightarrow> False | Inr v \<Rightarrow> \<not> truthy v)"

definition failed_downloads :: "(json \<times> string \<times> bool) list \<Rightarrow> nat" where
  "failed_downloads ds = length (filter (\<lambda>d. \<not> snd (snd d)) ds)"

text \<open>
  A server that answers the connection test and knows no issue; a command line asking
  for the issues 5, 6 and 5 again with \<open>--skip-existing\<close>, and one asking for issue 5
  only; the worlds after the connection test and after the output directories are
  prepared, starting from \<open>saved_world\<close>.
\<close>

definition batch_env :: env where
  "batch_env =
     \<lparr> http = (\<lambda>n req.
         if req = Get ''http://redmine.example/projects.json'' [(''limit'', ''1'')]
         then Response \<lparr> status_code = 200, json_body = None, content = [] \<rparr>
         else Response \<lparr> status_code = 404, json_body = None, content = [] \<rparr>),
       fault = (\<lambda>n p. NoFault),
       history_ok = (\<lambda>n. True),
       dotenv_exists = True,
       getenv = (\<lambda>name. if name = ''REDMINE_URL'' then Some ''http://redmine.example/''
                         else if name = ''REDMINE_API_KEY'' then Some ''0123456789abcdef''
                         else None),
       now = ''2024-01-01 00:00:00'' \<rparr>"






subsection \<open>Saving an issue\<close>

text \<open>
  Whether a fault stops a write of \<open>n\<close> characters. A document with a value the encoder
  has no rule for. An environment whose every write meets the fault \<open>f\<close>.
\<close>

fun fault_hits :: "fault \<Rightarrow> nat \<Rightarrow> bool" where
  "fault_hits NoFault n = False"
| "fault_hits OpenFails n = True"
| "fault_hits (FailsAfter k) n = (k < n)"

definition unserializable_doc :: json where
  "unserializable_doc = JObj [(''b'', JOther), (''a'', JInt 1)]"

definition fault_env :: "fault \<Rightarrow> env" where
  "fault_env f = batch_env \<lparr> fault := (\<lambda>n p. f) \<rparr>"

section \<open>Properties\<close>

subsection \<open>Trailing slashes of the base URL\<close>



subsection \<open>Attachment extraction\<close>

lemma contains_obj: "py_contains key (JObj kvs) = Inr (map_of kvs key \<noteq> None)"
  by (simp add: map_of_eq_None_iff)

lemma journals_loop_ok:
  "list_all journal_ok js \<Longrightarrow>
   journals_loop acc js = Inr (acc @ concat (map journal_attachments js))"
proof (induction js arbitrary: acc)
  case Nil
  then show ?case by simp
next
  case (Cons j js)
  from Cons.prems obtain kvs where j: "j = JObj kvs" and ok: "attachments_ok kvs"
    and rest: "list_all journal_ok js"
    by (cases j) auto
  show ?case
  proof (cases "map_of kvs ''attachments''")
    case None
    then show ?thesis
      using Cons.IH [OF rest] j
      by (simp add: contains_obj attachment_list_def del: py_contains.simps map_of_eq_None_iff)
  next
    case (Some a)
    with ok obtain xs where a: "a = JArr xs"
      by (cases a) (auto simp: attachments_ok_def)
    show ?thesis
      using Cons.IH [OF rest] j Some a
      by (simp add: contains_obj attachment_list_def del: py_contains.simps map_of_eq_None_iff)
  qed
qed

lemma get_attachments_shaped:
  assumes "issue_shaped doc"
  shows "get_attachments_from_issue doc = Inr (extractAttachments doc)"
proof -
  note defs = get_attachments_from_issue_def issue_has_def issue_field_def contains_obj
    extractAttachments_def attachment_list_def journal_list_def
  from assms obtain doc_items where doc: "doc = JObj doc_items"
    by (cases doc) (auto simp: issue_shaped_def)
  show ?thesis
  proof (cases "map_of doc_items ''issue''")
    case None
    with doc show ?thesis
      by (simp add: defs del: py_contains.simps map_of_eq_None_iff)
  next
    case (Some i)
    with assms doc obtain issue where i: "i = JObj issue"
      and a_ok: "attachments_ok issue" and j_ok: "journals_ok issue"
      by (cases i) (auto simp: issue_shaped_def)
    have a_cases: "map_of issue ''attachments'' = None
        \<or> (\<exists>xs. map_of issue ''attachments'' = Some (JArr xs))"
      using a_ok by (auto simp: attachments_ok_def split: option.splits json.splits)
    have j_cases: "map_of issue ''journals'' = None
        \<or> (\<exists>js. map_of issue ''journals'' = Some (JArr js) \<and> list_all journal_ok js)"
      using j_ok by (auto simp: journals_ok_def split: option.splits json.splits)
    from a_cases j_cases show ?thesis
      using doc Some i
      by (auto simp add: defs journals_loop_ok simp del: py_contains.simps map_of_eq_None_iff)
  qed
qed

lemma no_structure_empty:
  "no_attachment_structure doc \<Longrightarrow> extractAttachments doc = []"
  by (auto simp: no_attachment_structure_def extractAttachments_def attachment_list_def
      journal_list_def split: json.splits option.splits)

lemma no_structure_shaped:
  "no_attachment_structure doc \<Longrightarrow> issue_shaped doc"
  by (auto simp: no_attachment_structure_def issue_shaped_def attachments_ok_def
      journals_ok_def split: json.splits option.splits)

lemma example_doc_shaped: "issue_shaped example_doc"
  by (simp add: example_doc_def issue_shaped_def attachments_ok_def journals_ok_def)

lemma example_doc_extract:
  "extractAttachments example_doc =
    [JObj [(''id'', JInt 1), (''filename'', JStr ''a.txt'')],
     JObj [(''id'', JInt 2), (''filename'', JStr ''b.txt'')],
     JObj [(''id'', JInt 3)]]"
  by (simp add: example_doc_def extractAttachments_def attachment_list_def journal_list_def)

text \<open>
  C6, as stated, fails: the guards of \<open>get_attachments_from_issue\<close> test that a key is
  present, not what it holds. On the document \<open>{"issue": null}\<close>, which has no
  attachment sub-structure, the test \<open>'attachments' in issue_data['issue']\<close> raises
  \<open>TypeError\<close>.
\<close>

theorem extract_attachments_counterexample:
  "get_attachments_from_issue (JObj [(''issue'', JNull)]) = Inl TypeError"
  by (simp add: get_attachments_from_issue_def issue_has_def)

text \<open>
  C6, amended. On a document of the expected shape (every key on the two attachment
  paths is either missing or holds a dictionary, respectively a list),
  \<open>get_attachments_from_issue\<close> raises nothing and returns the issue's own attachment
  list followed by the attachment list of each journal entry, in document order; a
  document with no \<open>issue\<close>, or whose issue has neither \<open>attachments\<close> nor \<open>journals\<close>,
  yields the empty list.
\<close>

theorem extract_attachments_shaped:
  "(issue_shaped doc \<longrightarrow> get_attachments_from_issue doc = Inr (extractAttachments doc))
   \<and> (no_attachment_structure doc \<longrightarrow> get_attachments_from_issue doc = Inr [])"
  using get_attachments_shaped [of doc] no_structure_shaped [of doc] no_structure_empty [of doc]
  by auto

theorem extract_attachments_shaped_witness:
  "issue_shaped example_doc
   \<and> get_attachments_from_issue example_doc =
       Inr [JObj [(''id'', JInt 1), (''filename'', JStr ''a.txt'')],
            JObj [(''id'', JInt 2), (''filename'', JStr ''b.txt'')],
            JObj [(''id'', JInt 3)]]
   \<and> no_attachment_structure (JObj [(''id'', JInt 7)])
   \<and> get_attachments_from_issue (JObj [(''id'', JInt 7)]) = Inr []"
proof -
  have n: "no_attachment_structure (JObj [(''id'', JInt 7)])"
    by (simp add: no_attachment_structure_def)
  from extract_attachments_shaped [of example_doc] example_doc_shaped example_doc_extract
  have "get_attachments_from_issue example_doc =
       Inr [JObj [(''id'', JInt 1), (''filename'', JStr ''a.txt'')],
            JObj [(''id'', JInt 2), (''filename'', JStr ''b.txt'')],
            JObj [(''id'', JInt 3)]]"
    by simp
  moreover from extract_attachments_shaped [of "JObj [(''id'', JInt 7)]"] n
  have "get_attachments_from_issue (JObj [(''id'', JInt 7)]) = Inr []"
    by simp
  ultimately show ?thesis using n example_doc_shaped by simp
qed

subsection \<open>The history directory: available dates\<close>









subsection \<open>The history directory: reading a day\<close>









subsection \<open>process_issue: an issue the server does not know\<close>

lemma get_issue_404:
  assumes "http e (length (requests w))
             (Get (issue_url c issue_id) [(''include'', ''journals,attachments'')]) = Response r"
    and "status_code r = 404"
  shows "get_issue e c issue_id w =
           (Inr JNull, w\<lparr> requests := requests w
              @ [Get (issue_url c issue_id) [(''include'', ''journals,attachments'')]] \<rparr>)"
  using assms by (simp add: get_issue_def Let_def)

text \<open>
  C3. When the request of \<open>get_issue\<close> is answered with status 404, \<open>get_issue\<close>
  returns \<open>None\<close> and raises nothing; \<open>process_issue\<close> leaves the file system as it
  was, so no file appears at the issue's path; and \<open>process_issue\<close> returns \<open>False\<close>
  whenever it makes the request, that is, unless it skips the issue for an existing file.
\<close>

theorem not_found_is_failure:
  assumes "http e (length (requests w))
             (Get (issue_url c issue_id) [(''include'', ''journals,attachments'')]) = Response r"
    and "status_code r = 404"
  shows "fst (get_issue e c issue_id w) = Inr JNull
    \<and> files (snd (process_issue e c fm issue_id skip dl w)) = files w
    \<and> (\<not> (skip \<and> file_exists fm issue_id w)
         \<longrightarrow> fst (process_issue e c fm issue_id skip dl w) = False)"
proof -
  have r: "requests (logged (LogFetching issue_id) w) = requests w"
    by (simp add: logged_def)
  have "get_issue e c issue_id (logged (LogFetching issue_id) w) =
      (Inr JNull, (logged (LogFetching issue_id) w)\<lparr> requests := requests w
              @ [Get (issue_url c issue_id) [(''include'', ''journals,attachments'')]] \<rparr>)"
    using get_issue_404 [of e "logged (LogFetching issue_id) w" c issue_id r] assms
    by (simp add: r)
  then have body: "process_issue_body e c fm issue_id dl w =
      (Inr False, logged (LogNotFound issue_id) ((logged (LogFetching issue_id) w)\<lparr> requests := requests w
              @ [Get (issue_url c issue_id) [(''include'', ''journals,attachments'')]] \<rparr>))"
    by (simp add: process_issue_body_def)
  show ?thesis
    using get_issue_404 [OF assms]
    by (simp add: process_issue_def body logged_def)
qed

theorem not_found_is_failure_witness:
  "http not_found_env (length (requests empty_world))
     (Get (issue_url example_client 5) [(''include'', ''journals,attachments'')])
     = Response \<lparr> status_code = 404, json_body = None, content = [] \<rparr>
   \<and> status_code \<lparr> status_code = 404, json_body = None, content = [] \<rparr> = 404
   \<and> \<not> (True \<and> file_exists example_fm 5 empty_world)
   \<and> fst (get_issue not_found_env example_client 5 empty_world) = Inr JNull
   \<and> fst (process_issue not_found_env example_client example_fm 5 True True empty_world) = False
   \<and> files (snd (process_issue not_found_env example_client example_fm 5 True True empty_world))
        (get_issue_file_path example_fm 5) = None"
proof -
  have h: "http not_found_env (length (requests empty_world))
     (Get (issue_url example_client 5) [(''include'', ''journals,attachments'')])
     = Response \<lparr> status_code = 404, json_body = None, content = [] \<rparr>"
    by (simp add: not_found_env_def)
  have s: "status_code \<lparr> status_code = 404, json_body = None, content = [] \<rparr> = 404"
    by simp
  have n: "\<not> (True \<and> file_exists example_fm 5 empty_world)"
    by (simp add: file_exists_def empty_world_def path_exists_def Let_def)
  have f: "files empty_world (get_issue_file_path example_fm 5) = None"
    by (simp add: empty_world_def)
  from not_found_is_failure [OF h s, of example_fm True True] n f h s
  show ?thesis by simp
qed

subsection \<open>process_issue: skipping an existing file\<close>

text \<open>
  C4. With \<open>skip_existing\<close> set and a file at the issue's path, \<open>process_issue\<close>
  returns \<open>True\<close> and sends no request: the list of requests, the record of
  attachment downloads and the file system are as before.
\<close>

theorem skip_existing_no_network:
  assumes "file_exists fm issue_id w"
  shows "fst (process_issue e c fm issue_id True dl w) = True
    \<and> requests (snd (process_issue e c fm issue_id True dl w)) = requests w
    \<and> downloads (snd (process_issue e c fm issue_id True dl w)) = downloads w
    \<and> files (snd (process_issue e c fm issue_id True dl w)) = files w"
  using assms by (simp add: process_issue_def logged_def)

theorem skip_existing_no_network_witness:
  "file_exists example_fm 5 saved_world
   \<and> fst (process_issue not_found_env example_client example_fm 5 True True saved_world) = True
   \<and> requests (snd (process_issue not_found_env example_client example_fm 5 True True saved_world)) = []"
proof -
  have f: "file_exists example_fm 5 saved_world"
    by code_simp
  have r: "requests saved_world = []"
    by (simp add: saved_world_def empty_world_def)
  from skip_existing_no_network [OF f, of not_found_env example_client True] f r
  show ?thesis by simp
qed

subsection \<open>process_issue: attachment failures\<close>

lemma download_attachment_record:
  "download_attachment e c aid p w = (Inr b, w') \<Longrightarrow> downloads w' = downloads w @ [(aid, p, b)]"
  by (auto simp: download_attachment_def returned_def Let_def
      split: http_outcome.splits fault.splits if_splits)

lemma logged_downloads [simp]: "downloads (logged ev w) = downloads w"
  by (simp add: logged_def)

lemma failed_downloads_append [simp]:
  "failed_downloads (xs @ ys) = failed_downloads xs + failed_downloads ys"
  by (simp add: failed_downloads_def)

lemma attachments_loop_counts:
  "attachments_loop e c fm i atts s f w = (Inr (s', f'), w') \<Longrightarrow>
   \<exists>new. downloads w' = downloads w @ new
     \<and> f' = f + failed_downloads new + length (filter no_id atts)
     \<and> s' + f' = s + f + length atts"
proof (induction atts arbitrary: s f w)
  case Nil
  then show ?case by (simp add: failed_downloads_def)
next
  case (Cons a atts)
  from Cons.prems obtain aid where aid: "py_get a ''id'' JNull = Inr aid"
    by (auto split: sum.splits)
  from Cons.prems aid obtain filename
    where fn: "py_get a ''filename'' (JStr (''attachment_'' @ py_str aid)) = Inr filename"
    by (auto split: sum.splits)
  show ?case
  proof (cases "truthy aid")
    case False
    with Cons.prems aid fn
    have "attachments_loop e c fm i atts s (Suc f) (logged (LogAttachmentInvalid a) w)
        = (Inr (s', f'), w')" by simp
    from Cons.IH [OF this] False aid show ?thesis
      by (auto simp: no_id_def)
  next
    case True
    with Cons.prems aid fn obtain file_path
      where fp: "get_attachment_file_path fm i filename = Inr file_path"
      by (auto split: sum.splits)
    have nid: "\<not> no_id a" using True aid by (simp add: no_id_def)
    show ?thesis
    proof (cases "path_exists w file_path")
      case ex: True
      with Cons.prems aid fn True fp
      have "attachments_loop e c fm i atts (Suc s) f (logged (LogAttachmentExists filename) w)
          = (Inr (s', f'), w')" by simp
      from Cons.IH [OF this] nid show ?thesis by auto
    next
      case nex: False
      obtain r w1 where d: "download_attachment e c aid file_path
          (logged (LogAttachmentDownloading filename) w) = (r, w1)"
        by (cases "download_attachment e c aid file_path
          (logged (LogAttachmentDownloading filename) w)") auto
      with Cons.prems aid fn True fp nex obtain b where r: "r = Inr b"
        by (cases r) auto
      from download_attachment_record [OF d [unfolded r]]
      have dl: "downloads w1 = downloads w @ [(aid, file_path, b)]" by simp
      show ?thesis
      proof (cases b)
        case bt: True
        with Cons.prems aid fn True fp nex d r
        have "attachments_loop e c fm i atts (Suc s) f (logged (LogAttachmentDone filename) w1)
            = (Inr (s', f'), w')" by simp
        from Cons.IH [OF this] nid dl bt show ?thesis
          by (auto simp: failed_downloads_def)
      next
        case bf: False
        with Cons.prems aid fn True fp nex d r
        have "attachments_loop e c fm i atts s (Suc f) (logged (LogAttachmentFailed filename) w1)
            = (Inr (s', f'), w')" by simp
        from Cons.IH [OF this] nid dl bf show ?thesis
          by (auto simp: failed_downloads_def)
      qed
    qed
  qed
qed

lemma get_issue_downloads: "downloads (snd (get_issue e c i w)) = downloads w"
  by (simp add: get_issue_def Let_def split: http_outcome.splits option.splits)

lemma save_issue_json_downloads: "downloads (snd (save_issue_json e fm i d w)) = downloads w"
  by (simp add: save_issue_json_def Let_def split: fault.splits)

text \<open>
  C1, amended. Take a run of \<open>process_issue\<close> with downloads enabled in which the
  issue is fetched and saved, the descriptors are extracted and the loop over them ends
  without an exception. Then \<open>process_issue\<close> returns \<open>True\<close> whatever the downloads
  returned; every descriptor is counted once, as successful or as failed; and the number
  of failures, which is the number written to the log, is the number of calls of
  \<open>download_attachment\<close> that returned \<open>False\<close> plus the number of descriptors without a
  usable identifier.
\<close>

theorem attachment_failures_counted:
  assumes "\<not> (skip \<and> file_exists fm issue_id w)"
    and "get_issue e c issue_id (logged (LogFetching issue_id) w) = (Inr issue_data, w1)"
    and "issue_data \<noteq> JNull"
    and "save_issue_json e fm issue_id issue_data w1 = (Inr saved_path, w2)"
    and "get_attachments_from_issue issue_data = Inr attachments"
    and "attachments_loop e c fm issue_id attachments 0 0
           (logged (LogAttachmentsStart issue_id (length attachments))
              (logged (LogSaved issue_id saved_path) w2)) = (Inr (s, f), w3)"
  shows "fst (process_issue e c fm issue_id skip True w) = True
    \<and> s + f = length attachments
    \<and> f = failed_downloads (drop (length (downloads w)) (downloads w3))
          + length (filter no_id attachments)
    \<and> (0 < f \<longrightarrow> log (snd (process_issue e c fm issue_id skip True w))
                     = log w3 @ [LogAttachmentsFailed issue_id f (length attachments)])"
proof -
  from attachments_loop_counts [OF assms(6)] obtain new
    where new: "downloads w3 = downloads w2 @ new"
      and f: "f = failed_downloads new + length (filter no_id attachments)"
      and sf: "s + f = length attachments"
    by auto
  have "downloads w1 = downloads w"
    using get_issue_downloads [of e c issue_id "logged (LogFetching issue_id) w"] assms(2)
    by simp
  moreover have "downloads w2 = downloads w1"
    using save_issue_json_downloads [of e fm issue_id issue_data w1] assms(4) by simp
  ultimately have d: "drop (length (downloads w)) (downloads w3) = new"
    using new by simp
  have ne: "0 < f \<Longrightarrow> attachments \<noteq> []"
    using sf by auto
  have phase: "attachment_phase e c fm issue_id issue_data
          (logged (LogSaved issue_id saved_path) w2) =
        (if attachments = []
         then (Inr True, logged (LogNoAttachments issue_id)
                 (logged (LogSaved issue_id saved_path) w2))
         else if 0 < f
         then (Inr True, logged (LogAttachmentsFailed issue_id f (length attachments)) w3)
         else (Inr True, logged (LogAttachmentsDone issue_id) w3))"
    using assms(5,6) by (simp add: attachment_phase_def)
  have body: "process_issue_body e c fm issue_id True w =
      attachment_phase e c fm issue_id issue_data (logged (LogSaved issue_id saved_path) w2)"
    using assms(2,3,4) by (simp add: process_issue_body_def)
  have run: "process_issue e c fm issue_id skip True w =
        (True, if attachments = []
               then logged (LogNoAttachments issue_id) (logged (LogSaved issue_id saved_path) w2)
               else if 0 < f
               then logged (LogAttachmentsFailed issue_id f (length attachments)) w3
               else logged (LogAttachmentsDone issue_id) w3)"
  proof -
    have c: "(skip \<and> file_exists fm issue_id w) = False" using assms(1) by simp
    show ?thesis unfolding process_issue_def c by (simp add: body phase)
  qed
  have "0 < f \<longrightarrow> log (snd (process_issue e c fm issue_id skip True w))
                     = log w3 @ [LogAttachmentsFailed issue_id f (length attachments)]"
    using ne by (simp add: run logged_def)
  then show ?thesis using sf f d by (simp add: run)
qed

lemma mixed_fetch:
  "fst (get_issue mixed_env example_client 7 (logged (LogFetching 7) empty_world)) = Inr mixed_doc"
  by code_simp

lemma mixed_save:
  "fst (save_issue_json mixed_env example_fm 7 mixed_doc fetched_world) = Inr ''out/issues/7.json''"
  by code_simp

lemma mixed_extract: "get_attachments_from_issue mixed_doc = Inr mixed_attachments"
  by code_simp

lemma mixed_loop:
  "fst (attachments_loop mixed_env example_client example_fm 7 mixed_attachments 0 0
            (logged (LogAttachmentsStart 7 (length mixed_attachments))
               (logged (LogSaved 7 ''out/issues/7.json'') stored_world))) = Inr (2, 2)"
  by code_simp

lemma mixed_downloads:
  "downloads finished_world =
     [(JInt 1, ''out/attachments/7/a.txt'', True),
      (JInt 2, ''out/attachments/7/b.txt'', False),
      (JInt 3, ''out/attachments/7/attachment_3'', True)]"
  by code_simp

text \<open>
  C1, as stated, fails: a descriptor whose \<open>id\<close> is missing is counted as a failure
  though \<open>download_attachment\<close> is never called for it. For the issue of \<open>mixed_doc\<close>
  the log reports 2 failures of 4, and one call of \<open>download_attachment\<close> returned
  \<open>False\<close>.
\<close>

theorem attachment_failures_counterexample:
  "fst (process_issue mixed_env example_client example_fm 7 False True empty_world) = True
   \<and> last (log (snd (process_issue mixed_env example_client example_fm 7 False True empty_world)))
       = LogAttachmentsFailed 7 2 4
   \<and> failed_downloads
         (downloads (snd (process_issue mixed_env example_client example_fm 7 False True
                            empty_world))) = 1"
  by code_simp

theorem attachment_failures_counted_witness:
  "\<not> (False \<and> file_exists example_fm 7 empty_world)
   \<and> get_issue mixed_env example_client 7 (logged (LogFetching 7) empty_world)
       = (Inr mixed_doc, fetched_world)
   \<and> mixed_doc \<noteq> JNull
   \<and> save_issue_json mixed_env example_fm 7 mixed_doc fetched_world
       = (Inr ''out/issues/7.json'', stored_world)
   \<and> get_attachments_from_issue mixed_doc = Inr mixed_attachments
   \<and> attachments_loop mixed_env example_client example_fm 7 mixed_attachments 0 0
         (logged (LogAttachmentsStart 7 (length mixed_attachments))
            (logged (LogSaved 7 ''out/issues/7.json'') stored_world))
       = (Inr (2, 2), finished_world)
   \<and> fst (process_issue mixed_env example_client example_fm 7 False True empty_world) = True
   \<and> failed_downloads (drop (length (downloads empty_world)) (downloads finished_world)) = 1
   \<and> length (filter no_id mixed_attachments) = 1
   \<and> log (snd (process_issue mixed_env example_client example_fm 7 False True empty_world))
       = log finished_world @ [LogAttachmentsFailed 7 2 (length mixed_attachments)]"
proof -
  have h1: "\<not> (False \<and> file_exists example_fm 7 empty_world)" by simp
  have h2: "get_issue mixed_env example_client 7 (logged (LogFetching 7) empty_world)
       = (Inr mixed_doc, fetched_world)"
    using mixed_fetch by (simp add: prod_eq_iff fetched_world_def)
  have h3: "mixed_doc \<noteq> JNull" by (simp add: mixed_doc_def)
  have h4: "save_issue_json mixed_env example_fm 7 mixed_doc fetched_world
       = (Inr ''out/issues/7.json'', stored_world)"
    using mixed_save by (simp add: prod_eq_iff stored_world_def)
  have h6: "attachments_loop mixed_env example_client example_fm 7 mixed_attachments 0 0
         (logged (LogAttachmentsStart 7 (length mixed_attachments))
            (logged (LogSaved 7 ''out/issues/7.json'') stored_world))
       = (Inr (2, 2), finished_world)"
    using mixed_loop by (simp add: prod_eq_iff finished_world_def)
  have d: "failed_downloads (drop (length (downloads empty_world)) (downloads finished_world)) = 1"
    by (simp add: mixed_downloads empty_world_def failed_downloads_def)
  have n: "length (filter no_id mixed_attachments) = 1"
    by (simp add: mixed_attachments_def no_id_def)
  from attachment_failures_counted [OF h1 h2 h3 h4 mixed_extract h6]
  have "fst (process_issue mixed_env example_client example_fm 7 False True empty_world) = True
    \<and> log (snd (process_issue mixed_env example_client example_fm 7 False True empty_world))
       = log finished_world @ [LogAttachmentsFailed 7 2 (length mixed_attachments)]"
    by simp
  with h1 h2 h3 h4 mixed_extract h6 d n show ?thesis by simp
qed

subsection \<open>main: the batch and the exit code\<close>

lemma logged_processed [simp]: "processed (logged ev w) = processed w"
  by (simp add: logged_def)









lemma log_command_execution_processed [simp]:
  "processed (log_command_execution e cmd ok_flag info w) = processed w"
  by (simp add: log_command_execution_def Let_def)











subsection \<open>save_issue_json: what a failed save leaves behind\<close>

text \<open>
  C2, amended. \<open>save_issue_json\<close> opens the issue's file for writing, which empties it,
  and streams the serialized document into it. When it returns, it returns the issue's
  path and the file holds exactly the serialized document, whatever it held before. It
  returns if and only if nothing fails on the file system and the document can be
  serialized; otherwise it raises \<open>OSError\<close> or \<open>ValueError\<close>. When the failure comes
  before the file is opened, the file system is as before. When it comes later, the
  prior content is gone and the file holds the part of the serialization written so
  far: the characters before a write error, the text before a value that cannot be
  serialized.
\<close>

theorem save_issue_json_outcomes:
  "(\<forall>p. fst (save_issue_json e fm issue_id issue_data w) = Inr p \<longrightarrow>
       p = get_issue_file_path fm issue_id
       \<and> files (snd (save_issue_json e fm issue_id issue_data w))
           = (files w)(get_issue_file_path fm issue_id \<mapsto> File (iterencode 0 issue_data)))
   \<and> (\<forall>x. fst (save_issue_json e fm issue_id issue_data w) = Inl x \<longrightarrow>
          x = OSError \<or> x = ValueError)
   \<and> ((\<exists>p. fst (save_issue_json e fm issue_id issue_data w) = Inr p) \<longleftrightarrow>
          NUL \<notin> set (get_issue_file_path fm issue_id)
          \<and> \<not> fault_hits (fault e (writes w) (get_issue_file_path fm issue_id))
                (length (iterencode 0 issue_data))
          \<and> serializable issue_data)
   \<and> (NUL \<in> set (get_issue_file_path fm issue_id)
        \<or> fault e (writes w) (get_issue_file_path fm issue_id) = OpenFails \<longrightarrow>
          files (snd (save_issue_json e fm issue_id issue_data w)) = files w)
   \<and> (\<forall>k. NUL \<notin> set (get_issue_file_path fm issue_id)
          \<and> fault e (writes w) (get_issue_file_path fm issue_id) = FailsAfter k
          \<and> k < length (iterencode 0 issue_data) \<longrightarrow>
          fst (save_issue_json e fm issue_id issue_data w) = Inl OSError
          \<and> files (snd (save_issue_json e fm issue_id issue_data w))
                (get_issue_file_path fm issue_id)
              = Some (File (take k (iterencode 0 issue_data))))
   \<and> (NUL \<notin> set (get_issue_file_path fm issue_id)
        \<and> \<not> fault_hits (fault e (writes w) (get_issue_file_path fm issue_id))
              (length (iterencode 0 issue_data))
        \<and> \<not> serializable issue_data \<longrightarrow>
          fst (save_issue_json e fm issue_id issue_data w) = Inl ValueError
          \<and> files (snd (save_issue_json e fm issue_id issue_data w))
                (get_issue_file_path fm issue_id)
              = Some (File (iterencode 0 issue_data)))"
  by (cases "fault e (writes w) (get_issue_file_path fm issue_id)")
     (auto simp: save_issue_json_def get_issue_file_path_def Let_def)

lemma saved_world_prior: "files saved_world (get_issue_file_path example_fm 5) = Some (File ''{}'')"
  by code_simp

text \<open>
  C2, as stated, fails: the write is not atomic. With \<open>{}\<close> saved for issue 5 before,
  saving a document whose second value cannot be serialized raises \<open>ValueError\<close>, and
  the file then holds the beginning of the new text instead of its prior content.
\<close>

theorem save_issue_json_counterexample:
  "files saved_world (get_issue_file_path example_fm 5) = Some (File ''{}'')
   \<and> fst (save_issue_json batch_env example_fm 5 unserializable_doc saved_world) = Inl ValueError
   \<and> files (snd (save_issue_json batch_env example_fm 5 unserializable_doc saved_world))
        (get_issue_file_path example_fm 5)
       = Some (File [CHR ''{'', CHR 0x0A, CHR '' '', CHR '' '', CHR 0x22, CHR ''a'', CHR 0x22,
                     CHR '':'', CHR '' '', CHR ''1'', CHR '','', CHR 0x0A, CHR '' '', CHR '' '',
                     CHR 0x22, CHR ''b'', CHR 0x22, CHR '':'', CHR '' ''])"
  by code_simp

lemma example_path: "get_issue_file_path example_fm 5 = ''out/issues/5.json''"
  by code_simp

lemma example_path_clean: "NUL \<notin> set (get_issue_file_path example_fm 5)"
  by code_simp

lemma example_serializable: "serializable example_doc"
  by code_simp

lemma example_long: "3 < length (iterencode 0 example_doc)"
  by code_simp

theorem save_issue_json_outcomes_witness:
  "NUL \<notin> set (get_issue_file_path example_fm 5)
   \<and> \<not> fault_hits (fault batch_env (writes saved_world) (get_issue_file_path example_fm 5))
         (length (iterencode 0 example_doc))
   \<and> serializable example_doc
   \<and> fst (save_issue_json batch_env example_fm 5 example_doc saved_world)
       = Inr ''out/issues/5.json''
   \<and> files (snd (save_issue_json batch_env example_fm 5 example_doc saved_world))
       = (files saved_world)(''out/issues/5.json'' \<mapsto> File (iterencode 0 example_doc))
   \<and> fault (fault_env OpenFails) (writes saved_world) (get_issue_file_path example_fm 5)
       = OpenFails
   \<and> (\<exists>x. fst (save_issue_json (fault_env OpenFails) example_fm 5 example_doc saved_world)
            = Inl x)
   \<and> files (snd (save_issue_json (fault_env OpenFails) example_fm 5 example_doc saved_world))
       = files saved_world
   \<and> fault (fault_env (FailsAfter 3)) (writes saved_world) (get_issue_file_path example_fm 5)
       = FailsAfter 3
   \<and> 3 < length (iterencode 0 example_doc)
   \<and> fst (save_issue_json (fault_env (FailsAfter 3)) example_fm 5 example_doc saved_world)
       = Inl OSError
   \<and> files (snd (save_issue_json (fault_env (FailsAfter 3)) example_fm 5 example_doc
                     saved_world)) ''out/issues/5.json''
       = Some (File (take 3 (iterencode 0 example_doc)))"
proof -
  have nf: "\<not> fault_hits (fault batch_env (writes saved_world) (get_issue_file_path example_fm 5))
         (length (iterencode 0 example_doc))"
    by (simp add: batch_env_def)
  have fo: "fault (fault_env OpenFails) (writes saved_world) (get_issue_file_path example_fm 5)
       = OpenFails"
    by (simp add: fault_env_def)
  have fa: "fault (fault_env (FailsAfter 3)) (writes saved_world)
       (get_issue_file_path example_fm 5) = FailsAfter 3"
    by (simp add: fault_env_def)
  from save_issue_json_outcomes [of batch_env example_fm 5 example_doc saved_world]
    example_path_clean nf example_serializable
  have ok: "fst (save_issue_json batch_env example_fm 5 example_doc saved_world)
       = Inr ''out/issues/5.json''
    \<and> files (snd (save_issue_json batch_env example_fm 5 example_doc saved_world))
       = (files saved_world)(''out/issues/5.json'' \<mapsto> File (iterencode 0 example_doc))"
    by (metis example_path)
  from save_issue_json_outcomes [of "fault_env OpenFails" example_fm 5 example_doc saved_world] fo
  have op: "(\<exists>x. fst (save_issue_json (fault_env OpenFails) example_fm 5 example_doc saved_world)
            = Inl x)
    \<and> files (snd (save_issue_json (fault_env OpenFails) example_fm 5 example_doc saved_world))
       = files saved_world"
    by (metis fault_hits.simps(2) sum.exhaust_sel sum.collapse(1))
  from save_issue_json_outcomes [of "fault_env (FailsAfter 3)" example_fm 5 example_doc
      saved_world] example_path_clean fa example_long
  have pa: "fst (save_issue_json (fault_env (FailsAfter 3)) example_fm 5 example_doc saved_world)
       = Inl OSError
    \<and> files (snd (save_issue_json (fault_env (FailsAfter 3)) example_fm 5 example_doc
                     saved_world)) ''out/issues/5.json''
       = Some (File (take 3 (iterencode 0 example_doc)))"
    by (metis example_path)
  from example_path_clean nf example_serializable ok fo op fa example_long pa
  show ?thesis by blast
qed

end
